theory Spec2Isabelle
  imports Complex_Main
begin

section \<open>Data model (types/index.ts)\<close>

text \<open>
  The interfaces of \<^verbatim>\<open>types/index.ts\<close> as records. Several interfaces share field
  names (\<^verbatim>\<open>duration\<close>, \<^verbatim>\<open>text\<close>, \<^verbatim>\<open>startTime\<close>), and \<^verbatim>\<open>text\<close> is an Isar keyword, so
  every field carries a prefix naming its interface. A JavaScript \<^verbatim>\<open>number\<close> is
  modelled as an exact rational; the claims below only evaluate arithmetic on values
  where double-precision arithmetic is exact as well (small integers and their
  quotients that are integers). A JavaScript string is a \<^typ>\<open>string\<close>; the model of
  \<^verbatim>\<open>toLowerCase\<close> and of the \<^verbatim>\<open>\s\<close> character class covers ASCII text.
\<close>

record ScriptSegment =
  seg_text :: string
  seg_duration :: rat
  seg_keywords :: "string list"

record VideoClip =
  clip_url :: string
  clip_duration :: rat
  clip_startTime :: "rat option"

record SubtitleSegment =
  sub_startTime :: rat
  sub_endTime :: rat
  sub_text :: string

section \<open>Script generation route (app/api/generate-script/route.ts)\<close>

subsection \<open>String primitives used by \<^verbatim>\<open>extractKeywords\<close>\<close>

text \<open>\<^verbatim>\<open>String.prototype.toLowerCase\<close> on ASCII: the letters A to Z move to a to z.\<close>

definition toLowerCase_char :: "char \<Rightarrow> char" where
  "toLowerCase_char c =
     (if 65 \<le> (of_char c :: nat) \<and> (of_char c :: nat) \<le> 90
      then char_of ((of_char c :: nat) + 32) else c)"

definition toLowerCase :: "string \<Rightarrow> string" where
  "toLowerCase s = map toLowerCase_char s"

text \<open>The ASCII members of the regular expression class \<^verbatim>\<open>\s\<close>: tab, line feed,
  vertical tab, form feed, carriage return and space.\<close>

definition is_space :: "char \<Rightarrow> bool" where
  "is_space c = ((of_char c :: nat) \<in> {9, 10, 11, 12, 13, 32})"

text \<open>
  \<^verbatim>\<open>s.split(/\s+/)\<close>: the pieces of \<^verbatim>\<open>s\<close> between maximal runs of whitespace. The
  piece before the first run and the piece after the last run are always
  produced, so a string that starts or ends with whitespace yields an empty
  first or last piece, and the empty string yields one empty piece. The first
  argument is the piece read so far.
\<close>

function split_ws :: "string \<Rightarrow> string \<Rightarrow> string list" where
  "split_ws cur [] = [cur]"
| "split_ws cur (c # cs) =
     (if is_space c then cur # split_ws [] (dropWhile is_space cs)
      else split_ws (cur @ [c]) cs)"
  by pat_completeness auto
termination
  by (relation "measure (\<lambda>(cur, s). length s)")
     (auto simp: length_dropWhile_le less_Suc_eq_le)

definition split_whitespace :: "string \<Rightarrow> string list" where
  "split_whitespace s = split_ws [] s"

subsection \<open>\<^verbatim>\<open>extractKeywords\<close> (route.ts, lines 103 to 107)\<close>

definition stopWords :: "string list" where
  "stopWords = [''a'', ''an'', ''the'', ''and'', ''or'', ''but'', ''in'', ''on'', ''at'',
                ''to'', ''for'', ''create'', ''video'', ''about'']"

definition extractKeywords :: "string \<Rightarrow> string list" where
  "extractKeywords prompt =
     (let words = split_whitespace (toLowerCase prompt)
      in take 3 (filter (\<lambda>word. word \<notin> set stopWords \<and> 3 < length word) words))"

subsection \<open>\<^verbatim>\<open>createFallbackScript\<close> (route.ts, lines 73 to 101)\<close>

definition templates :: "string \<Rightarrow> string list" where
  "templates prompt =
     [''Welcome to this amazing '' @ prompt @ ''. Let's dive right in!'',
      ''Here's what makes '' @ prompt @ '' so special and unique.'',
      ''You won't believe these incredible facts about '' @ prompt @ ''.'',
      ''This is the ultimate guide to '' @ prompt @ '' you've been waiting for.'',
      ''Transform your life with '' @ prompt @ '' starting today.'']"

text \<open>
  The \<^verbatim>\<open>for\<close> loop of lines 91 to 98: \<^verbatim>\<open>i\<close> counts up from its start value while
  \<^verbatim>\<open>i < segmentCount\<close>, pushing one segment per round.
\<close>

function fallback_loop ::
  "nat \<Rightarrow> int \<Rightarrow> string list \<Rightarrow> rat \<Rightarrow> string list \<Rightarrow> ScriptSegment list \<Rightarrow> ScriptSegment list"
where
  "fallback_loop i segmentCount tpls segmentDuration kws segments =
     (if int i < segmentCount
      then fallback_loop (Suc i) segmentCount tpls segmentDuration kws
             (segments @ [\<lparr>seg_text = tpls ! (i mod length tpls),
                           seg_duration = segmentDuration,
                           seg_keywords = kws\<rparr>])
      else segments)"
  by pat_completeness auto
termination
  by (relation "measure (\<lambda>(i, n, t, d, k, s). nat (n - int i))") auto

declare fallback_loop.simps [simp del]

text \<open>
  \<^verbatim>\<open>segmentCount = Math.ceil(duration / 5)\<close> and
  \<^verbatim>\<open>segmentDuration = duration / segmentCount\<close>. When \<^verbatim>\<open>segmentCount\<close> is not positive
  the loop body never runs and \<^verbatim>\<open>segmentDuration\<close> (NaN or an infinity in
  JavaScript, 0 here) is never read. The local \<^verbatim>\<open>totalWords\<close> is computed and never
  used, so it is left out.
\<close>

definition createFallbackScript :: "string \<Rightarrow> rat \<Rightarrow> ScriptSegment list" where
  "createFallbackScript prompt duration =
     (let segmentCount = \<lceil>duration / 5\<rceil>;
          segmentDuration = duration / of_int segmentCount;
          keywords = extractKeywords prompt
      in fallback_loop 0 segmentCount (templates prompt) segmentDuration keywords [])"

subsection \<open>The keyword rule in the words of the specification\<close>

text \<open>
  The specification describes keyword extraction as: lowercase the prompt, split on
  whitespace, discard the fixed stopword list and the words of length at most 3, keep
  the first 3 remaining tokens. \<open>split_on\<close> cuts at every single whitespace
  character, so two adjacent whitespace characters enclose an empty word; the
  definition below follows that wording step by step and is compared with the
  source's \<open>extractKeywords\<close> further down.
\<close>

fun split_on :: "(char \<Rightarrow> bool) \<Rightarrow> string \<Rightarrow> string list" where
  "split_on P [] = [[]]"
| "split_on P (c # cs) =
     (if P c then [] # split_on P cs
      else (c # hd (split_on P cs)) # tl (split_on P cs))"

definition extractKeywords_spec :: "string \<Rightarrow> string list" where
  "extractKeywords_spec prompt =
     take 3 (filter (\<lambda>w. \<not> length w \<le> 3)
              (filter (\<lambda>w. w \<notin> set stopWords)
                 (split_on is_space (toLowerCase prompt))))"

subsection \<open>The \<^verbatim>\<open>POST\<close> handler (route.ts, lines 3 to 71)\<close>

text \<open>
  A thrown JavaScript value: an \<^verbatim>\<open>Error\<close> instance with its message (a
  \<^verbatim>\<open>TypeError\<close> or \<^verbatim>\<open>SyntaxError\<close> is one), or any other value.
\<close>

datatype thrown = Error string | NonError

text \<open>A value produced by \<^verbatim>\<open>JSON.parse\<close>; an object is the list of its properties.\<close>

datatype json =
    JNull
  | JBool bool
  | JNum rat
  | JStr string
  | JArr "json list"
  | JObj "(string \<times> json) list"

text \<open>
  The \<^verbatim>\<open>segments\<close> field of a response body is either a list built by
  \<open>createFallbackScript\<close> or whatever value the handler took out of the parsed
  service answer.
\<close>

datatype payload = Script "ScriptSegment list" | Raw json

record response =
  res_status :: nat
  res_error :: "string option"
  res_segments :: payload

text \<open>
  The request body as line 5 sees it. \<open>Unreadable\<close>: the text is no JSON, so that
  \<^verbatim>\<open>req.json()\<close> rejects, or it is the JSON value \<^verbatim>\<open>null\<close>, so that the destructuring
  throws. \<open>Body prompt duration\<close>: a JSON object whose \<^verbatim>\<open>prompt\<close> is a string and whose
  \<^verbatim>\<open>duration\<close> is a number, the types that \<open>createFallbackScript\<close> declares for its
  parameters. Bodies of any other shape are outside this model.
\<close>

datatype req_body = Unreadable | Body string rat

text \<open>
  What the text-generation service does with the request, one constructor for each
  place where lines 17 to 60 can leave the straight path:
  \<^item> \<open>NetworkError\<close>: \<^verbatim>\<open>fetch\<close> rejects (line 17);
  \<^item> \<open>HttpNotOk\<close>: \<^verbatim>\<open>response.ok\<close> is false (line 47);
  \<^item> \<open>BodyNotJson\<close>: \<^verbatim>\<open>response.json()\<close> rejects (line 51);
  \<^item> \<open>NoContent\<close>: \<^verbatim>\<open>data.choices[0].message.content\<close> throws a TypeError (line 52);
  \<^item> \<open>Unparseable\<close>: \<^verbatim>\<open>JSON.parse(content)\<close> throws (line 56);
  \<^item> \<open>Parsed v\<close>: \<^verbatim>\<open>JSON.parse(content)\<close> returns \<open>v\<close>.
\<close>

datatype completion =
    NetworkError
  | HttpNotOk
  | BodyNotJson
  | NoContent
  | Unparseable
  | Parsed json

text \<open>JavaScript truthiness of a JSON value, as \<^verbatim>\<open>||\<close> tests it.\<close>

fun truthy :: "json \<Rightarrow> bool" where
  "truthy JNull = False"
| "truthy (JBool b) = b"
| "truthy (JNum n) = (n \<noteq> 0)"
| "truthy (JStr s) = (s \<noteq> [])"
| "truthy (JArr xs) = True"
| "truthy (JObj kvs) = True"

text \<open>
  \<^verbatim>\<open>parsed.segments || parsed\<close> (line 57) for a parsed value other than
  \<^verbatim>\<open>null\<close>: only an object can have a \<^verbatim>\<open>segments\<close> property; booleans, numbers,
  strings and arrays give \<^verbatim>\<open>undefined\<close>, which is falsy.
\<close>

fun segments_or_self :: "json \<Rightarrow> json" where
  "segments_or_self (JObj kvs) =
     (case map_of kvs ''segments'' of
        Some v \<Rightarrow> if truthy v then v else JObj kvs
      | None \<Rightarrow> JObj kvs)"
| "segments_or_self v = v"

text \<open>\<^verbatim>\<open>!apiKey\<close> holds for an unset variable and for the empty string.\<close>

definition configured :: "string option \<Rightarrow> bool" where
  "configured apiKey = (case apiKey of None \<Rightarrow> False | Some k \<Rightarrow> k \<noteq> [])"

text \<open>
  \<^verbatim>\<open>req.json()\<close> reads the body stream of the request. A body can be read once:
  a second call finds the body used and rejects with a TypeError (Fetch standard,
  "consume body"), also when the first call failed while parsing.
\<close>

definition req_json :: "req_body \<Rightarrow> bool \<Rightarrow> thrown + string \<times> rat" where
  "req_json body bodyUsed =
     (if bodyUsed then Inl (Error ''Body is unusable: Body has already been read'')
      else case body of
             Unreadable \<Rightarrow> Inl (Error ''Unexpected end of JSON input'')
           | Body prompt duration \<Rightarrow> Inr (prompt, duration))"

definition fallback_response :: "string option \<Rightarrow> string \<Rightarrow> rat \<Rightarrow> response" where
  "fallback_response err prompt duration =
     \<lparr>res_status = 200, res_error = err,
      res_segments = Script (createFallbackScript prompt duration)\<rparr>"

text \<open>
  The outer \<^verbatim>\<open>catch\<close> block (lines 64 to 70). Every path into it has passed line 5,
  so the body is used when line 66 reads it again.
\<close>

definition POST_catch :: "req_body \<Rightarrow> thrown + response" where
  "POST_catch body =
     (case req_json body True of
        Inl e \<Rightarrow> Inl e
      | Inr (prompt, duration) \<Rightarrow> Inr (fallback_response None prompt duration))"

text \<open>
  The result of the handler: the response it resolves to or the value it rejects
  with, and whether \<^verbatim>\<open>fetch\<close> was called.
\<close>

record handler_result =
  hr_outcome :: "thrown + response"
  hr_fetched :: bool

definition POST :: "string option \<Rightarrow> completion \<Rightarrow> req_body \<Rightarrow> handler_result" where
  "POST apiKey service body =
     (case req_json body False of
        Inl e \<Rightarrow> \<lparr>hr_outcome = POST_catch body, hr_fetched = False\<rparr>
      | Inr (prompt, duration) \<Rightarrow>
          if \<not> configured apiKey
          then \<lparr>hr_outcome = Inr (fallback_response (Some ''API key not configured'') prompt duration),
                hr_fetched = False\<rparr>
          else (case service of
                  NetworkError \<Rightarrow> \<lparr>hr_outcome = POST_catch body, hr_fetched = True\<rparr>
                | HttpNotOk \<Rightarrow> \<lparr>hr_outcome = POST_catch body, hr_fetched = True\<rparr>
                | BodyNotJson \<Rightarrow> \<lparr>hr_outcome = POST_catch body, hr_fetched = True\<rparr>
                | NoContent \<Rightarrow> \<lparr>hr_outcome = POST_catch body, hr_fetched = True\<rparr>
                | Unparseable \<Rightarrow>
                    \<lparr>hr_outcome = Inr (fallback_response None prompt duration), hr_fetched = True\<rparr>
                | Parsed parsed \<Rightarrow>
                    (case parsed of
                       JNull \<Rightarrow>
                         \<lparr>hr_outcome = Inr (fallback_response None prompt duration),
                          hr_fetched = True\<rparr>
                     | _ \<Rightarrow>
                         \<lparr>hr_outcome = Inr \<lparr>res_status = 200, res_error = None,
                                             res_segments = Raw (segments_or_self parsed)\<rparr>,
                          hr_fetched = True\<rparr>)))"

text \<open>
  When a \<^verbatim>\<open>segments\<close> payload has the shape of a script: an array of objects,
  each with a string \<^verbatim>\<open>text\<close>, a number \<^verbatim>\<open>duration\<close> and an array of strings
  \<^verbatim>\<open>keywords\<close> (interface \<^verbatim>\<open>ScriptSegment\<close>).
\<close>

fun is_string_json :: "json \<Rightarrow> bool" where
  "is_string_json (JStr s) = True"
| "is_string_json v = False"

fun is_segment_json :: "json \<Rightarrow> bool" where
  "is_segment_json (JObj kvs) =
     (case (map_of kvs ''text'', map_of kvs ''duration'', map_of kvs ''keywords'') of
        (Some (JStr t), Some (JNum d), Some (JArr ks)) \<Rightarrow> list_all is_string_json ks
      | _ \<Rightarrow> False)"
| "is_segment_json v = False"

fun carries_script :: "payload \<Rightarrow> bool" where
  "carries_script (Script segs) = True"
| "carries_script (Raw (JArr xs)) = list_all is_segment_json xs"
| "carries_script (Raw v) = False"

section \<open>The client pipeline (components/VideoGenerator.tsx)\<close>

subsection \<open>State and collaborators\<close>

record VideoSettings =
  vs_prompt :: string
  vs_duration :: rat
  vs_resolution :: string
  vs_voice :: string

text \<open>The \<^verbatim>\<open>useState\<close> cells of the component that \<^verbatim>\<open>handleGenerate\<close> reads or writes.\<close>

record ui_state =
  st_settings :: VideoSettings
  st_isGenerating :: bool
  st_progress :: string
  st_currentStep :: nat
  st_videoUrl :: string
  st_error :: string

type_synonym blob = "nat list"

text \<open>
  The functions \<^verbatim>\<open>handleGenerate\<close> imports from \<^verbatim>\<open>@/lib/scriptGenerator\<close>,
  \<^verbatim>\<open>@/lib/videoSearch\<close>, \<^verbatim>\<open>@/lib/textToSpeech\<close> and \<^verbatim>\<open>@/lib/videoComposer\<close>, and the
  browser's \<^verbatim>\<open>URL.createObjectURL\<close>. The component only calls them, so they are
  parameters here: each call either throws or returns a value. The \<^verbatim>\<open>duration\<close>
  that \<^verbatim>\<open>generateVoiceover\<close> reports is \<open>None\<close> when the field is \<^verbatim>\<open>undefined\<close> or NaN.
\<close>

record env =
  ext_generateScript :: "string \<Rightarrow> rat \<Rightarrow> thrown + ScriptSegment list"
  ext_createFallbackScript :: "string \<Rightarrow> rat \<Rightarrow> thrown + ScriptSegment list"
  ext_searchVideos :: "string list \<Rightarrow> rat \<Rightarrow> thrown + VideoClip list"
  ext_selectClipsForDuration :: "VideoClip list \<Rightarrow> rat \<Rightarrow> thrown + VideoClip list"
  ext_generateVoiceover :: "string \<Rightarrow> string \<Rightarrow> thrown + blob \<times> rat option"
  ext_generateSubtitles :: "string \<Rightarrow> rat \<Rightarrow> thrown + SubtitleSegment list"
  ext_loadFFmpeg :: "thrown + unit"
  ext_composeVideo ::
    "VideoClip list \<Rightarrow> SubtitleSegment list \<Rightarrow> blob \<Rightarrow> string \<Rightarrow> thrown + blob"
  ext_createObjectURL :: "blob \<Rightarrow> string"

text \<open>The calls a run makes, in the order it makes them, with their arguments.\<close>

datatype event =
    Call_generateScript string rat
  | Call_createFallbackScript string rat
  | Call_searchVideos "string list" rat
  | Call_selectClipsForDuration "VideoClip list" rat
  | Call_generateVoiceover string string
  | Call_generateSubtitles string rat
  | Call_loadFFmpeg
  | Call_composeVideo "VideoClip list" "SubtitleSegment list" blob string
  | Call_createObjectURL blob

subsection \<open>Array helpers\<close>

text \<open>\<^verbatim>\<open>Array.from(new Set(xs))\<close>: a Set keeps the first occurrence of each element, in
  insertion order.\<close>

fun dedupe :: "'a list \<Rightarrow> 'a list \<Rightarrow> 'a list" where
  "dedupe seen [] = seen"
| "dedupe seen (x # xs) = (if x \<in> set seen then dedupe seen xs else dedupe (seen @ [x]) xs)"

text \<open>\<^verbatim>\<open>xs.join(sep)\<close>.\<close>

fun join :: "string \<Rightarrow> string list \<Rightarrow> string" where
  "join sep [] = []"
| "join sep [x] = x"
| "join sep (x # y # ys) = x @ sep @ join sep (y # ys)"

subsection \<open>\<^verbatim>\<open>handleGenerate\<close> (lines 37 to 111)\<close>

text \<open>The \<^verbatim>\<open>catch\<close> and \<^verbatim>\<open>finally\<close> blocks (lines 104 to 110).\<close>

definition catch_finally :: "ui_state \<Rightarrow> thrown \<Rightarrow> ui_state" where
  "catch_finally st err =
     st\<lparr>st_error := (case err of Error message \<Rightarrow> message | NonError \<Rightarrow> ''Unknown error occurred''),
        st_progress := [],
        st_isGenerating := False\<rparr>"

text \<open>Step 1 (lines 46 to 54): the inner \<^verbatim>\<open>try\<close> with its fallback.\<close>

definition script_stage :: "env \<Rightarrow> VideoSettings \<Rightarrow> (thrown + ScriptSegment list) \<times> event list" where
  "script_stage e settings =
     (case ext_generateScript e (vs_prompt settings) (vs_duration settings) of
        Inr scriptSegments \<Rightarrow>
          (Inr scriptSegments, [Call_generateScript (vs_prompt settings) (vs_duration settings)])
      | Inl err \<Rightarrow>
          (ext_createFallbackScript e (vs_prompt settings) (vs_duration settings),
           [Call_generateScript (vs_prompt settings) (vs_duration settings),
            Call_createFallbackScript (vs_prompt settings) (vs_duration settings)]))"

text \<open>\<^verbatim>\<open>duration || settings.duration\<close> (line 78): 0, NaN and \<^verbatim>\<open>undefined\<close> are falsy.\<close>

definition duration_or :: "rat option \<Rightarrow> rat \<Rightarrow> rat" where
  "duration_or reported requested =
     (case reported of
        None \<Rightarrow> requested
      | Some d \<Rightarrow> if d = 0 then requested else d)"

text \<open>Steps 3 to 6 (lines 69 to 102), entered with the selected clips.\<close>

definition media_stage ::
  "env \<Rightarrow> ui_state \<Rightarrow> ScriptSegment list \<Rightarrow> VideoClip list \<Rightarrow> ui_state \<times> event list"
where
  "media_stage e st scriptSegments selectedClips =
     (let settings = st_settings st;
          st3 = st\<lparr>st_currentStep := 3, st_progress := ''Generating voiceover...''\<rparr>;
          fullScript = join '' '' (map seg_text scriptSegments);
          ev3 = [Call_generateVoiceover fullScript (vs_voice settings)]
      in (case ext_generateVoiceover e fullScript (vs_voice settings) of
            Inl err \<Rightarrow> (catch_finally st3 err, ev3)
          | Inr (audioBlob, duration) \<Rightarrow>
     (let st4 = st3\<lparr>st_currentStep := 4, st_progress := ''Creating subtitles...''\<rparr>;
          ev4 = ev3 @ [Call_generateSubtitles fullScript (duration_or duration (vs_duration settings))]
      in (case ext_generateSubtitles e fullScript (duration_or duration (vs_duration settings)) of
            Inl err \<Rightarrow> (catch_finally st4 err, ev4)
          | Inr subtitles \<Rightarrow>
     (let st5 = st4\<lparr>st_currentStep := 5, st_progress := ''Loading video processor...''\<rparr>;
          ev5 = ev4 @ [Call_loadFFmpeg]
      in (case ext_loadFFmpeg e of
            Inl err \<Rightarrow> (catch_finally st5 err, ev5)
          | Inr u \<Rightarrow>
     (let st6 = st5\<lparr>st_currentStep := 6, st_progress := ''Composing final video...''\<rparr>;
          ev6 = ev5 @ [Call_composeVideo selectedClips subtitles audioBlob (vs_resolution settings)]
      in (case ext_composeVideo e selectedClips subtitles audioBlob (vs_resolution settings) of
            Inl err \<Rightarrow> (catch_finally st6 err, ev6)
          | Inr videoBlob \<Rightarrow>
              (st6\<lparr>st_videoUrl := ext_createObjectURL e videoBlob,
                   st_progress := ''Video generated successfully!'',
                   st_currentStep := 7,
                   st_isGenerating := False\<rparr>,
               ev6 @ [Call_createObjectURL videoBlob])))))))))"

text \<open>
  The whole handler: the final state of the component and the calls made. The
  progress callback given to \<^verbatim>\<open>composeVideo\<close> only rewrites \<^verbatim>\<open>progress\<close> while the
  composition runs; line 101 or line 107 overwrites it afterwards.
\<close>

definition handleGenerate :: "env \<Rightarrow> ui_state \<Rightarrow> ui_state \<times> event list" where
  "handleGenerate e st =
     (let settings = st_settings st;
          st0 = st\<lparr>st_isGenerating := True, st_progress := ''Starting video generation...'',
                  st_currentStep := 0, st_error := [], st_videoUrl := []\<rparr>;
          st1 = st0\<lparr>st_currentStep := 1, st_progress := ''Generating AI script...''\<rparr>
      in (case script_stage e settings of
            (Inl err, ev1) \<Rightarrow> (catch_finally st1 err, ev1)
          | (Inr scriptSegments, ev1) \<Rightarrow>
     (let st2 = st1\<lparr>st_currentStep := 2, st_progress := ''Searching for relevant videos...''\<rparr>;
          allKeywords = concat (map seg_keywords scriptSegments);
          uniqueKeywords = dedupe [] allKeywords;
          ev2 = ev1 @ [Call_searchVideos uniqueKeywords (vs_duration settings)]
      in (case ext_searchVideos e uniqueKeywords (vs_duration settings) of
            Inl err \<Rightarrow> (catch_finally st2 err, ev2)
          | Inr videoClips \<Rightarrow>
              (if length videoClips = 0
               then (catch_finally st2 (Error ''No videos found for the given prompt''), ev2)
               else (case ext_selectClipsForDuration e videoClips (vs_duration settings) of
                       Inl err \<Rightarrow>
                         (catch_finally st2 err,
                          ev2 @ [Call_selectClipsForDuration videoClips (vs_duration settings)])
                     | Inr selectedClips \<Rightarrow>
                         (case media_stage e st2 scriptSegments selectedClips of
                            (st', ev') \<Rightarrow>
                              (st', ev2 @ [Call_selectClipsForDuration videoClips (vs_duration settings)]
                                      @ ev'))))))))"

subsection \<open>The generate button (lines 213 to 223)\<close>

text \<open>\<^verbatim>\<open>disabled={isGenerating || !settings.prompt}\<close>: the empty string is the only
  falsy string.\<close>

definition generate_disabled :: "ui_state \<Rightarrow> bool" where
  "generate_disabled st = (st_isGenerating st \<or> vs_prompt (st_settings st) = [])"

text \<open>A click on a disabled button dispatches no \<^verbatim>\<open>onClick\<close>; otherwise the handler runs.\<close>

definition click_generate :: "env \<Rightarrow> ui_state \<Rightarrow> ui_state \<times> event list" where
  "click_generate e st = (if generate_disabled st then (st, []) else handleGenerate e st)"

subsection \<open>Observing a run\<close>

text \<open>The calls that belong to clip selection, narration synthesis, caption alignment
  and composition, that is, everything after the clip lookup.\<close>

fun is_downstream_call :: "event \<Rightarrow> bool" where
  "is_downstream_call (Call_generateScript p d) = False"
| "is_downstream_call (Call_createFallbackScript p d) = False"
| "is_downstream_call (Call_searchVideos ks d) = False"
| "is_downstream_call (Call_selectClipsForDuration cs d) = True"
| "is_downstream_call (Call_generateVoiceover t v) = True"
| "is_downstream_call (Call_generateSubtitles t d) = True"
| "is_downstream_call Call_loadFFmpeg = True"
| "is_downstream_call (Call_composeVideo cs ss a r) = True"
| "is_downstream_call (Call_createObjectURL b) = True"

text \<open>The arguments of the calls to \<^verbatim>\<open>generateSubtitles\<close> in a run, in order.\<close>

fun subtitle_calls :: "event list \<Rightarrow> (string \<times> rat) list" where
  "subtitle_calls [] = []"
| "subtitle_calls (Call_generateSubtitles t d # evs) = (t, d) # subtitle_calls evs"
| "subtitle_calls (ev # evs) = subtitle_calls evs"

text \<open>
  A small concrete set of collaborators for evaluating runs: the script service
  answers with one segment, the clip lookup answers with the given clips, selection
  keeps them all, the synthesizer reports the given duration, and every later call
  succeeds.
\<close>

definition sample_env :: "VideoClip list \<Rightarrow> rat option \<Rightarrow> env" where
  "sample_env clips reported =
     \<lparr>ext_generateScript =
        (\<lambda>p d. Inr [\<lparr>seg_text = ''Hi.'', seg_duration = d, seg_keywords = [''cats'']\<rparr>]),
      ext_createFallbackScript = (\<lambda>p d. Inr []),
      ext_searchVideos = (\<lambda>ks d. Inr clips),
      ext_selectClipsForDuration = (\<lambda>cs d. Inr cs),
      ext_generateVoiceover = (\<lambda>t v. Inr ([], reported)),
      ext_generateSubtitles =
        (\<lambda>t d. Inr [\<lparr>sub_startTime = 0, sub_endTime = d, sub_text = t\<rparr>]),
      ext_loadFFmpeg = Inr (),
      ext_composeVideo = (\<lambda>cs ss a r. Inr []),
      ext_createObjectURL = (\<lambda>b. ''blob:0'')\<rparr>"

definition sample_state :: "string \<Rightarrow> bool \<Rightarrow> ui_state" where
  "sample_state prompt generating =
     \<lparr>st_settings = \<lparr>vs_prompt = prompt, vs_duration = 30, vs_resolution = ''1080x1920'',
                      vs_voice = ''Alice''\<rparr>,
      st_isGenerating = generating, st_progress = [], st_currentStep = 0,
      st_videoUrl = [], st_error = []\<rparr>"

section \<open>Components whose code is outside the given sources\<close>

subsection \<open>Clip Selector (\<^verbatim>\<open>selectClipsForDuration\<close> of \<^verbatim>\<open>@/lib/videoSearch\<close>)\<close>


definition total_duration :: "VideoClip list \<Rightarrow> rat" where
  "total_duration clips = sum_list (map clip_duration clips)"




subsection \<open>Caption Aligner (\<^verbatim>\<open>generateSubtitles\<close> of \<^verbatim>\<open>@/lib/textToSpeech\<close>)\<close>

text \<open>
  Modelled from the spec: \<^verbatim>\<open>generateSubtitles\<close> is imported from
  \<^verbatim>\<open>@/lib/textToSpeech\<close>, which is not among the sources; the definitions below follow
  section 4.4 of the specification. The text is split on sentence boundaries:
  a chunk ends with a full stop, an exclamation mark or a question mark, and what
  follows the last of them is the final chunk. The first argument is the chunk read
  so far.
\<close>

definition ends_sentence :: "char \<Rightarrow> bool" where
  "ends_sentence c = (c = CHR ''.'' \<or> c = CHR ''!'' \<or> c = CHR ''?'')"

fun split_sentences :: "string \<Rightarrow> string \<Rightarrow> string list" where
  "split_sentences cur [] = (if cur = [] then [] else [cur])"
| "split_sentences cur (c # cs) =
     (if ends_sentence c then (cur @ [c]) # split_sentences [] cs
      else split_sentences (cur @ [c]) cs)"

text \<open>
  Modelled from the spec: the audio duration is distributed over the chunks in
  proportion to their character counts; each segment starts where the previous one
  ended, the first at 0, and the final segment ends at the audio duration itself, so
  that it absorbs any accumulated rounding error. The arguments are the audio
  duration, the total character count, the start time of the next segment and the
  chunks left.
\<close>

fun align_loop :: "rat \<Rightarrow> rat \<Rightarrow> rat \<Rightarrow> string list \<Rightarrow> SubtitleSegment list" where
  "align_loop D W t [] = []"
| "align_loop D W t [c] = [\<lparr>sub_startTime = t, sub_endTime = D, sub_text = c\<rparr>]"
| "align_loop D W t (c # c' # cs) =
     \<lparr>sub_startTime = t, sub_endTime = t + D * of_nat (length c) / W, sub_text = c\<rparr>
       # align_loop D W (t + D * of_nat (length c) / W) (c' # cs)"

definition align :: "string list \<Rightarrow> rat \<Rightarrow> SubtitleSegment list" where
  "align chunks D = align_loop D (of_nat (sum_list (map length chunks))) 0 chunks"

definition generateSubtitles :: "string \<Rightarrow> rat \<Rightarrow> SubtitleSegment list" where
  "generateSubtitles fullText D = align (split_sentences [] fullText) D"

text \<open>Segments are contiguous when each one ends where the next one starts.\<close>

fun contiguous :: "SubtitleSegment list \<Rightarrow> bool" where
  "contiguous [] = True"
| "contiguous [s] = True"
| "contiguous (s # s' # ss) = (sub_endTime s = sub_startTime s' \<and> contiguous (s' # ss))"

section \<open>Properties of the fallback script generator\<close>

subsection \<open>The loop as a map over the segment indices\<close>

lemma fallback_loop_eq:
  "fallback_loop i n tpls sd kws segs =
     segs @ map (\<lambda>j. \<lparr>seg_text = tpls ! (j mod length tpls), seg_duration = sd,
                        seg_keywords = kws\<rparr>) [i..<nat n]"
proof (induction i n tpls sd kws segs rule: fallback_loop.induct)
  case (1 i n tpls sd kws segs)
  show ?case
  proof (cases "int i < n")
    case True
    then have "[i..<nat n] = i # [Suc i..<nat n]"
      by (simp add: upt_conv_Cons)
    with True "1" show ?thesis
      by (subst fallback_loop.simps) simp
  next
    case False
    then show ?thesis
      by (subst fallback_loop.simps) simp
  qed
qed

lemma createFallbackScript_eq:
  "createFallbackScript p d =
     map (\<lambda>j. \<lparr>seg_text = templates p ! (j mod 5), seg_duration = d / of_int \<lceil>d / 5\<rceil>,
                 seg_keywords = extractKeywords p\<rparr>) [0..<nat \<lceil>d / 5\<rceil>]"
  by (simp add: createFallbackScript_def fallback_loop_eq Let_def templates_def)

lemma sum_durations:
  assumes "0 < d"
  shows "sum_list (map seg_duration (createFallbackScript p d)) = d"
proof -
  from assms have pos: "0 < \<lceil>d / 5\<rceil>" by simp
  then have "\<lceil>d / 5\<rceil> \<noteq> 0" by linarith
  then have nz: "(of_int \<lceil>d / 5\<rceil> :: rat) \<noteq> 0"
    by (simp only: of_int_eq_0_iff not_False_eq_True)
  have "sum_list (map seg_duration (createFallbackScript p d)) =
        of_nat (nat \<lceil>d / 5\<rceil>) * (d / of_int \<lceil>d / 5\<rceil>)"
    by (simp add: createFallbackScript_eq comp_def sum_list_triv)
  also from pos have "\<dots> = of_int \<lceil>d / 5\<rceil> * (d / of_int \<lceil>d / 5\<rceil>)"
    by (simp only: of_nat_nat [OF less_imp_le])
  also from nz have "\<dots> = d"
    by simp
  finally show ?thesis .
qed

text \<open>
  Claim C1. For every prompt and every duration \<open>d\<close> among 15, 30 and 60,
  \<open>createFallbackScript\<close> returns \<open>\<lceil>d / 5\<rceil>\<close> segments; the segment at index \<open>i\<close> has the
  duration \<open>d / \<lceil>d / 5\<rceil>\<close>, the text of template \<open>i mod 5\<close> built from the prompt, and
  the keywords of the prompt; the durations sum to exactly \<open>d\<close>. The generator is a
  function of the prompt and the duration alone (the source reads no clock, random
  source or other state), so two calls with the same inputs give the same list.
\<close>

theorem createFallbackScript_segments:
  assumes "d \<in> {15, 30, 60}"
  shows "length (createFallbackScript p d) = nat \<lceil>d / 5\<rceil>
       \<and> (\<forall>i < nat \<lceil>d / 5\<rceil>. createFallbackScript p d ! i =
            \<lparr>seg_text = templates p ! (i mod 5), seg_duration = d / of_int \<lceil>d / 5\<rceil>,
             seg_keywords = extractKeywords p\<rparr>)
       \<and> sum_list (map seg_duration (createFallbackScript p d)) = d"
proof -
  from assms have "0 < d" by auto
  then have "sum_list (map seg_duration (createFallbackScript p d)) = d"
    by (rule sum_durations)
  then show ?thesis
    by (simp add: createFallbackScript_eq)
qed

theorem createFallbackScript_segments_witness:
  "(15::rat) \<in> {15, 30, 60}
   \<and> length (createFallbackScript ''cats'' 15) = 3
   \<and> seg_duration (createFallbackScript ''cats'' 15 ! 2) = 5
   \<and> sum_list (map seg_duration (createFallbackScript ''cats'' 15)) = 15"
proof -
  have h: "(15::rat) \<in> {15, 30, 60}" by simp
  have n: "nat \<lceil>(15::rat) / 5\<rceil> = 3" by simp
  have c: "\<lceil>(15::rat) / 5\<rceil> = 3" by simp
  note t = createFallbackScript_segments [OF h, of "''cats''", unfolded n]
  from t have len: "length (createFallbackScript ''cats'' 15) = 3" by (rule conjunct1)
  from t have "createFallbackScript ''cats'' 15 ! 2 =
      \<lparr>seg_text = templates ''cats'' ! (2 mod 5), seg_duration = 15 / of_int \<lceil>(15::rat) / 5\<rceil>,
       seg_keywords = extractKeywords ''cats''\<rparr>" by (simp only:)
  then have two: "seg_duration (createFallbackScript ''cats'' 15 ! 2) = 5"
    by (simp only: c ScriptSegment.simps)
  from t have s: "sum_list (map seg_duration (createFallbackScript ''cats'' 15)) = 15"
    by (simp only:)
  show ?thesis
    by (intro conjI h len two s)
qed

section \<open>Properties of keyword extraction\<close>

subsection \<open>The two ways of splitting agree on the non-empty words\<close>

lemma split_on_nonempty: "split_on P s \<noteq> []"
  by (induction s) auto

lemma split_on_dropWhile:
  "filter (\<lambda>w. w \<noteq> []) (split_on P (dropWhile P s)) = filter (\<lambda>w. w \<noteq> []) (split_on P s)"
  by (induction s) auto

lemma split_ws_split_on:
  "filter (\<lambda>w. w \<noteq> []) (split_ws cur s) =
   filter (\<lambda>w. w \<noteq> []) ((cur @ hd (split_on is_space s)) # tl (split_on is_space s))"
proof (induction cur s rule: split_ws.induct)
  case (1 cur)
  show ?case by simp
next
  case (2 cur c cs)
  show ?case
  proof (cases "is_space c")
    case True
    with 2 have "filter (\<lambda>w. w \<noteq> []) (split_ws [] (dropWhile is_space cs)) =
                 filter (\<lambda>w. w \<noteq> []) (split_on is_space (dropWhile is_space cs))"
      by (simp add: split_on_nonempty)
    then have "filter (\<lambda>w. w \<noteq> []) (split_ws [] (dropWhile is_space cs)) =
               filter (\<lambda>w. w \<noteq> []) (split_on is_space cs)"
      by (simp only: split_on_dropWhile)
    with True show ?thesis by simp
  next
    case False
    with 2 show ?thesis by simp
  qed
qed

lemma split_whitespace_split_on:
  "filter (\<lambda>w. w \<noteq> []) (split_whitespace s) = filter (\<lambda>w. w \<noteq> []) (split_on is_space s)"
  by (simp add: split_whitespace_def split_ws_split_on split_on_nonempty)

lemma filter_long_nonempty:
  "filter (\<lambda>w. P w \<and> 3 < length w) xs =
   filter (\<lambda>w. P w \<and> 3 < length w) (filter (\<lambda>w. w \<noteq> []) xs)"
  by (induction xs) auto

lemma extractKeywords_refines: "extractKeywords p = extractKeywords_spec p"
proof -
  have "filter (\<lambda>w. w \<notin> set stopWords \<and> 3 < length w) (split_whitespace (toLowerCase p)) =
        filter (\<lambda>w. w \<notin> set stopWords \<and> 3 < length w) (split_on is_space (toLowerCase p))"
    by (subst filter_long_nonempty, subst (2) filter_long_nonempty)
       (simp only: split_whitespace_split_on)
  then show ?thesis
    by (simp add: extractKeywords_def extractKeywords_spec_def not_le conj_commute)
qed

text \<open>
  Claim C6. The source's \<open>extractKeywords\<close> computes what the specification's wording
  defines (\<open>extractKeywords_spec\<close>: lowercase, split on whitespace, drop the stopwords
  and the words of length at most 3, keep the first 3); its result has at most 3
  entries, none of them a stopword or of length at most 3. The result may be empty.
  Being a function of the prompt alone, it is deterministic.
\<close>

theorem extractKeywords_spec_refinement:
  "extractKeywords p = extractKeywords_spec p
   \<and> length (extractKeywords p) \<le> 3
   \<and> (\<forall>k \<in> set (extractKeywords p). k \<notin> set stopWords \<and> 3 < length k)"
proof -
  have "\<forall>k \<in> set (extractKeywords p). k \<notin> set stopWords \<and> 3 < length k"
    by (auto simp: extractKeywords_def dest!: in_set_takeD)
  moreover have "length (extractKeywords p) \<le> 3"
    by (simp add: extractKeywords_def)
  ultimately show ?thesis
    using extractKeywords_refines by simp
qed

theorem extractKeywords_spec_refinement_witness:
  "extractKeywords ''Create a VIDEO about Cats and dogs playing outside'' =
     [''cats'', ''dogs'', ''playing'']
   \<and> extractKeywords_spec ''Create a VIDEO about Cats and dogs playing outside'' =
     [''cats'', ''dogs'', ''playing'']
   \<and> ''dogs'' \<in> set (extractKeywords ''Create a VIDEO about Cats and dogs playing outside'')
   \<and> ''dogs'' \<notin> set stopWords \<and> 3 < length ''dogs''"
proof -
  have e: "extractKeywords ''Create a VIDEO about Cats and dogs playing outside'' =
             [''cats'', ''dogs'', ''playing'']"
    by code_simp
  have m: "''dogs'' \<in> set (extractKeywords ''Create a VIDEO about Cats and dogs playing outside'')"
    by (simp only: e) simp
  note t = extractKeywords_spec_refinement [of "''Create a VIDEO about Cats and dogs playing outside''"]
  from t e have s: "extractKeywords_spec ''Create a VIDEO about Cats and dogs playing outside'' =
                      [''cats'', ''dogs'', ''playing'']"
    by (simp only:)
  from t m have "''dogs'' \<notin> set stopWords \<and> 3 < length ''dogs''"
    by blast
  with e s m show ?thesis by (simp only: simp_thms)
qed

text \<open>
  Claim C5, as the code has it. The claim that extraction always yields at least one
  keyword fails: a prompt whose words are all stopwords or of length at most 3 gives
  the empty list, and every fallback segment then carries no keyword.
\<close>

theorem extractKeywords_empty_counterexample:
  "extractKeywords ''the cat sat'' = []
   \<and> map seg_keywords (createFallbackScript ''the cat sat'' 15) = [[], [], []]"
  by code_simp

text \<open>
  Claim C5, amended. The keyword list is non-empty exactly when the lowercased
  prompt, split on whitespace, has a word that is no stopword and longer than 3
  characters; it has at most 3 entries, and each entry is such a word.
\<close>

theorem extractKeywords_nonempty_iff:
  "(extractKeywords p \<noteq> [] \<longleftrightarrow>
      (\<exists>w \<in> set (split_whitespace (toLowerCase p)). w \<notin> set stopWords \<and> 3 < length w))
   \<and> length (extractKeywords p) \<le> 3
   \<and> set (extractKeywords p) \<subseteq>
       {w \<in> set (split_whitespace (toLowerCase p)). w \<notin> set stopWords \<and> 3 < length w}"
proof -
  have "extractKeywords p \<noteq> [] \<longleftrightarrow>
      (\<exists>w \<in> set (split_whitespace (toLowerCase p)). w \<notin> set stopWords \<and> 3 < length w)"
    by (auto simp: extractKeywords_def filter_empty_conv)
  moreover have "length (extractKeywords p) \<le> 3"
    by (simp add: extractKeywords_def)
  moreover have "set (extractKeywords p) \<subseteq>
       {w \<in> set (split_whitespace (toLowerCase p)). w \<notin> set stopWords \<and> 3 < length w}"
    by (auto simp: extractKeywords_def dest!: in_set_takeD)
  ultimately show ?thesis by blast
qed

theorem extractKeywords_nonempty_iff_witness:
  "''food'' \<in> set (split_whitespace (toLowerCase ''a Cat food''))
   \<and> ''food'' \<notin> set stopWords \<and> 3 < length ''food''
   \<and> extractKeywords ''a Cat food'' \<noteq> []
   \<and> set (extractKeywords ''a Cat food'') \<subseteq>
       {w \<in> set (split_whitespace (toLowerCase ''a Cat food'')). w \<notin> set stopWords \<and> 3 < length w}"
proof -
  have m: "''food'' \<in> set (split_whitespace (toLowerCase ''a Cat food''))"
    by code_simp
  have n: "''food'' \<notin> set stopWords" by (simp add: stopWords_def)
  have l: "3 < length ''food''" by simp
  note t = extractKeywords_nonempty_iff [of "''a Cat food''"]
  from t m n l have a: "extractKeywords ''a Cat food'' \<noteq> []" by blast
  from t have b: "set (extractKeywords ''a Cat food'') \<subseteq>
       {w \<in> set (split_whitespace (toLowerCase ''a Cat food'')). w \<notin> set stopWords \<and> 3 < length w}"
    by blast
  from m n l a b show ?thesis by (intro conjI)
qed

section \<open>Properties of the Clip Selector\<close>

lemma total_duration_simps [simp]:
  "total_duration [] = 0"
  "total_duration (c # cs) = clip_duration c + total_duration cs"
  "total_duration (xs @ ys) = total_duration xs + total_duration ys"
  by (simp_all add: total_duration_def)







subsection \<open>Exhaustion\<close>





subsection \<open>Three clips of 4 seconds and the target 10\<close>





section \<open>Properties of the Caption Aligner\<close>

lemma split_sentences_concat: "concat (split_sentences cur s) = cur @ s"
  by (induction s arbitrary: cur) simp_all

lemma split_sentences_nonempty: "cur @ s \<noteq> [] \<Longrightarrow> split_sentences cur s \<noteq> []"
  by (induction s arbitrary: cur) simp_all

lemma align_loop_nonempty: "chunks \<noteq> [] \<Longrightarrow> align_loop D W t chunks \<noteq> []"
  by (induction D W t chunks rule: align_loop.induct) simp_all

lemma align_loop_text: "map sub_text (align_loop D W t chunks) = chunks"
  by (induction D W t chunks rule: align_loop.induct) simp_all

lemma align_loop_start:
  "chunks \<noteq> [] \<Longrightarrow> sub_startTime (hd (align_loop D W t chunks)) = t"
  by (induction D W t chunks rule: align_loop.induct) simp_all

lemma align_loop_end:
  "chunks \<noteq> [] \<Longrightarrow> sub_endTime (last (align_loop D W t chunks)) = D"
  by (induction D W t chunks rule: align_loop.induct) (simp_all add: align_loop_nonempty)

lemma align_loop_contiguous: "contiguous (align_loop D W t chunks)"
proof (induction D W t chunks rule: align_loop.induct)
  case (1 D W t)
  show ?case by simp
next
  case (2 D W t c)
  show ?case by simp
next
  case (3 D W t c c' cs)
  let ?t' = "t + D * of_nat (length c) / W"
  obtain s ss where rest: "align_loop D W ?t' (c' # cs) = s # ss"
    using align_loop_nonempty [of "c' # cs" D W ?t'] by (auto simp: neq_Nil_conv)
  with align_loop_start [of "c' # cs" D W ?t'] have "sub_startTime s = ?t'" by simp
  with 3 rest show ?case by simp
qed

lemma contiguous_nth:
  "contiguous segs \<Longrightarrow> Suc i < length segs \<Longrightarrow>
     sub_endTime (segs ! i) = sub_startTime (segs ! Suc i)"
proof (induction segs arbitrary: i rule: contiguous.induct)
  case 1
  then show ?case by simp
next
  case (2 s)
  then show ?case by simp
next
  case (3 s s' ss)
  then show ?case by (cases i) simp_all
qed

text \<open>
  Claim C3. For every non-empty text and every audio duration \<open>D\<close>, the aligner
  returns at least one segment; the first starts at 0, the last ends at exactly \<open>D\<close>,
  each segment ends where the next one starts, and the segment texts concatenated in
  order are the original text. The times are exact rationals, and the final end time
  is \<open>D\<close> itself, so no rounding tolerance is needed.
\<close>

theorem generateSubtitles_contiguous_cover:
  assumes "fullText \<noteq> []"
  shows "generateSubtitles fullText D \<noteq> []
       \<and> sub_startTime (hd (generateSubtitles fullText D)) = 0
       \<and> sub_endTime (last (generateSubtitles fullText D)) = D
       \<and> (\<forall>i. Suc i < length (generateSubtitles fullText D) \<longrightarrow>
              sub_endTime (generateSubtitles fullText D ! i) =
              sub_startTime (generateSubtitles fullText D ! Suc i))
       \<and> concat (map sub_text (generateSubtitles fullText D)) = fullText"
proof -
  from assms have ne: "split_sentences [] fullText \<noteq> []"
    by (simp add: split_sentences_nonempty)
  have "contiguous (generateSubtitles fullText D)"
    by (simp add: generateSubtitles_def align_def align_loop_contiguous)
  then have "\<forall>i. Suc i < length (generateSubtitles fullText D) \<longrightarrow>
              sub_endTime (generateSubtitles fullText D ! i) =
              sub_startTime (generateSubtitles fullText D ! Suc i)"
    by (simp add: contiguous_nth)
  moreover from ne have "generateSubtitles fullText D \<noteq> []"
    by (simp add: generateSubtitles_def align_def align_loop_nonempty)
  moreover from ne have "sub_startTime (hd (generateSubtitles fullText D)) = 0"
    by (simp add: generateSubtitles_def align_def align_loop_start)
  moreover from ne have "sub_endTime (last (generateSubtitles fullText D)) = D"
    by (simp add: generateSubtitles_def align_def align_loop_end)
  moreover have "concat (map sub_text (generateSubtitles fullText D)) = fullText"
    by (simp add: generateSubtitles_def align_def align_loop_text split_sentences_concat)
  ultimately show ?thesis by blast
qed

theorem generateSubtitles_contiguous_cover_witness:
  "''Hi there. How are you? Fine'' \<noteq> []
   \<and> generateSubtitles ''Hi there. How are you? Fine'' 10 =
       [\<lparr>sub_startTime = 0, sub_endTime = 10 / 3, sub_text = ''Hi there.''\<rparr>,
        \<lparr>sub_startTime = 10 / 3, sub_endTime = 220 / 27, sub_text = '' How are you?''\<rparr>,
        \<lparr>sub_startTime = 220 / 27, sub_endTime = 10, sub_text = '' Fine''\<rparr>]
   \<and> sub_endTime (last (generateSubtitles ''Hi there. How are you? Fine'' 10)) = 10
   \<and> sub_endTime (generateSubtitles ''Hi there. How are you? Fine'' 10 ! 0) =
       sub_startTime (generateSubtitles ''Hi there. How are you? Fine'' 10 ! Suc 0)
   \<and> concat (map sub_text (generateSubtitles ''Hi there. How are you? Fine'' 10)) =
       ''Hi there. How are you? Fine''"
proof -
  have h: "''Hi there. How are you? Fine'' \<noteq> []" by simp
  have ev: "generateSubtitles ''Hi there. How are you? Fine'' 10 =
       [\<lparr>sub_startTime = 0, sub_endTime = 10 / 3, sub_text = ''Hi there.''\<rparr>,
        \<lparr>sub_startTime = 10 / 3, sub_endTime = 220 / 27, sub_text = '' How are you?''\<rparr>,
        \<lparr>sub_startTime = 220 / 27, sub_endTime = 10, sub_text = '' Fine''\<rparr>]"
    by (simp add: generateSubtitles_def align_def ends_sentence_def)
  have len: "Suc 0 < length (generateSubtitles ''Hi there. How are you? Fine'' 10)"
    by (simp only: ev) simp
  note t = generateSubtitles_contiguous_cover [OF h, of 10]
  from t have e: "sub_endTime (last (generateSubtitles ''Hi there. How are you? Fine'' 10)) = 10"
    by blast
  from t len have c: "sub_endTime (generateSubtitles ''Hi there. How are you? Fine'' 10 ! 0) =
       sub_startTime (generateSubtitles ''Hi there. How are you? Fine'' 10 ! Suc 0)"
    by blast
  from t have x: "concat (map sub_text (generateSubtitles ''Hi there. How are you? Fine'' 10)) =
       ''Hi there. How are you? Fine''"
    by blast
  from h ev e c x show ?thesis by (intro conjI)
qed

section \<open>Properties of the \<^verbatim>\<open>POST\<close> handler\<close>

text \<open>
  Claim C10. When no API credential is configured (the variable is unset or empty)
  and the request body carries a prompt and a duration, the handler does not call
  \<^verbatim>\<open>fetch\<close>, whatever the service would have answered, and resolves to a response
  with status 200 whose body has the error field "API key not configured" and the
  segments of the fallback script.
\<close>

theorem POST_missing_credential:
  assumes "\<not> configured apiKey"
  shows "hr_fetched (POST apiKey service (Body prompt duration)) = False
       \<and> hr_outcome (POST apiKey service (Body prompt duration)) =
           Inr \<lparr>res_status = 200, res_error = Some ''API key not configured'',
                res_segments = Script (createFallbackScript prompt duration)\<rparr>"
  using assms by (simp add: POST_def req_json_def fallback_response_def)

theorem POST_missing_credential_witness:
  "\<not> configured None
   \<and> hr_fetched (POST None NetworkError (Body ''cats'' 15)) = False
   \<and> hr_outcome (POST None NetworkError (Body ''cats'' 15)) =
           Inr \<lparr>res_status = 200, res_error = Some ''API key not configured'',
                res_segments = Script (createFallbackScript ''cats'' 15)\<rparr>"
proof -
  have h: "\<not> configured None" by (simp add: configured_def)
  from h POST_missing_credential [OF h, of NetworkError "''cats''" 15] show ?thesis
    by (intro conjI) blast+
qed

text \<open>
  Claim C4, as stated, fails for a parsed answer of malformed shape: the handler
  passes the parsed value on as \<^verbatim>\<open>segments\<close> without looking at its shape. Here the
  service's content parses to an object with the single property \<^verbatim>\<open>script\<close>; the
  response carries that object, which is no list of script segments and is not the
  fallback script.
\<close>

theorem POST_malformed_shape_counterexample:
  "hr_outcome (POST (Some ''sk-1'') (Parsed (JObj [(''script'', JStr ''Hello'')])) (Body ''cats'' 15)) =
     Inr \<lparr>res_status = 200, res_error = None,
          res_segments = Raw (JObj [(''script'', JStr ''Hello'')])\<rparr>
   \<and> \<not> carries_script (Raw (JObj [(''script'', JStr ''Hello'')]))
   \<and> Raw (JObj [(''script'', JStr ''Hello'')]) \<noteq> Script (createFallbackScript ''cats'' 15)"
  by (simp add: POST_def req_json_def configured_def)

text \<open>
  Claim C4, amended. For a request body that carries a prompt and a duration, the
  handler resolves to a response with status 200 that carries the fallback script
  when the credential is missing, when the service's content is not parseable as JSON,
  and when it parses to \<^verbatim>\<open>null\<close>; when the content parses to any other value, the
  response carries that value's truthy \<^verbatim>\<open>segments\<close> property, or else the value
  itself, with no check of its shape.
\<close>

theorem POST_fallback_routing:
  "(\<not> configured apiKey \<longrightarrow>
      hr_outcome (POST apiKey service (Body prompt duration)) =
        Inr \<lparr>res_status = 200, res_error = Some ''API key not configured'',
             res_segments = Script (createFallbackScript prompt duration)\<rparr>)
   \<and> (configured apiKey \<longrightarrow>
      hr_outcome (POST apiKey Unparseable (Body prompt duration)) =
        Inr \<lparr>res_status = 200, res_error = None,
             res_segments = Script (createFallbackScript prompt duration)\<rparr>)
   \<and> (configured apiKey \<longrightarrow>
      hr_outcome (POST apiKey (Parsed JNull) (Body prompt duration)) =
        Inr \<lparr>res_status = 200, res_error = None,
             res_segments = Script (createFallbackScript prompt duration)\<rparr>)
   \<and> (configured apiKey \<and> parsed \<noteq> JNull \<longrightarrow>
      hr_outcome (POST apiKey (Parsed parsed) (Body prompt duration)) =
        Inr \<lparr>res_status = 200, res_error = None,
             res_segments = Raw (segments_or_self parsed)\<rparr>)"
  by (cases parsed) (simp_all add: POST_def req_json_def fallback_response_def)

theorem POST_fallback_routing_witness:
  "\<not> configured (Some [])
   \<and> hr_outcome (POST (Some []) HttpNotOk (Body ''cats'' 15)) =
        Inr \<lparr>res_status = 200, res_error = Some ''API key not configured'',
             res_segments = Script (createFallbackScript ''cats'' 15)\<rparr>
   \<and> configured (Some ''sk-1'')
   \<and> hr_outcome (POST (Some ''sk-1'') Unparseable (Body ''cats'' 15)) =
        Inr \<lparr>res_status = 200, res_error = None,
             res_segments = Script (createFallbackScript ''cats'' 15)\<rparr>
   \<and> hr_outcome (POST (Some ''sk-1'') (Parsed JNull) (Body ''cats'' 15)) =
        Inr \<lparr>res_status = 200, res_error = None,
             res_segments = Script (createFallbackScript ''cats'' 15)\<rparr>
   \<and> JObj [(''segments'', JArr [JStr ''x''])] \<noteq> JNull
   \<and> hr_outcome (POST (Some ''sk-1'') (Parsed (JObj [(''segments'', JArr [JStr ''x''])]))
                   (Body ''cats'' 15)) =
        Inr \<lparr>res_status = 200, res_error = None, res_segments = Raw (JArr [JStr ''x''])\<rparr>"
proof -
  have n: "\<not> configured (Some [])" by (simp add: configured_def)
  have c: "configured (Some ''sk-1'')" by (simp add: configured_def)
  have j: "JObj [(''segments'', JArr [JStr ''x''])] \<noteq> JNull" by simp
  have s: "segments_or_self (JObj [(''segments'', JArr [JStr ''x''])]) = JArr [JStr ''x'']"
    by simp
  note a = POST_fallback_routing [of "Some []" HttpNotOk "''cats''" 15 JNull]
  note b = POST_fallback_routing
             [of "Some ''sk-1''" NetworkError "''cats''" 15 "JObj [(''segments'', JArr [JStr ''x''])]"]
  from a n have 1: "hr_outcome (POST (Some []) HttpNotOk (Body ''cats'' 15)) =
        Inr \<lparr>res_status = 200, res_error = Some ''API key not configured'',
             res_segments = Script (createFallbackScript ''cats'' 15)\<rparr>" by blast
  from b c have 2: "hr_outcome (POST (Some ''sk-1'') Unparseable (Body ''cats'' 15)) =
        Inr \<lparr>res_status = 200, res_error = None,
             res_segments = Script (createFallbackScript ''cats'' 15)\<rparr>" by blast
  from b c have 3: "hr_outcome (POST (Some ''sk-1'') (Parsed JNull) (Body ''cats'' 15)) =
        Inr \<lparr>res_status = 200, res_error = None,
             res_segments = Script (createFallbackScript ''cats'' 15)\<rparr>" by blast
  from b c j have "hr_outcome (POST (Some ''sk-1'') (Parsed (JObj [(''segments'', JArr [JStr ''x''])]))
                   (Body ''cats'' 15)) =
        Inr \<lparr>res_status = 200, res_error = None,
             res_segments = Raw (segments_or_self (JObj [(''segments'', JArr [JStr ''x''])]))\<rparr>"
    by blast
  then have 4: "hr_outcome (POST (Some ''sk-1'') (Parsed (JObj [(''segments'', JArr [JStr ''x''])]))
                   (Body ''cats'' 15)) =
        Inr \<lparr>res_status = 200, res_error = None, res_segments = Raw (JArr [JStr ''x''])\<rparr>"
    by (simp only: s)
  from n 1 c 2 3 j 4 show ?thesis by (intro conjI)
qed

text \<open>
  The remaining paths of the handler. When \<^verbatim>\<open>fetch\<close> rejects, the response is not OK,
  its body is no JSON, or the answer has no content, control reaches the outer
  \<^verbatim>\<open>catch\<close> block, whose first statement reads the request body a second time; that
  read rejects, so the handler itself rejects and builds no response.
\<close>

lemma POST_catch_rejects:
  "POST_catch body = Inl (Error ''Body is unusable: Body has already been read'')"
  by (simp add: POST_catch_def req_json_def)

lemma POST_service_failure_rejects:
  assumes "configured apiKey"
    and "service \<in> {NetworkError, HttpNotOk, BodyNotJson, NoContent}"
  shows "hr_outcome (POST apiKey service (Body prompt duration)) =
           Inl (Error ''Body is unusable: Body has already been read'')"
  using assms by (auto simp: POST_def req_json_def POST_catch_rejects)

section \<open>Properties of the client pipeline\<close>

lemma script_stage_events:
  "script_stage e s = (r, ev1) \<Longrightarrow> \<forall>x \<in> set ev1. \<not> is_downstream_call x"
  by (auto simp: script_stage_def split: sum.splits)

lemma script_stage_subtitle_calls:
  "script_stage e s = (r, ev1) \<Longrightarrow> subtitle_calls ev1 = []"
  by (auto simp: script_stage_def split: sum.splits)

lemma script_stage_nonempty: "snd (script_stage e s) \<noteq> []"
  by (simp add: script_stage_def split: sum.splits)

lemma subtitle_calls_append:
  "subtitle_calls (xs @ ys) = subtitle_calls xs @ subtitle_calls ys"
  by (induction xs rule: subtitle_calls.induct) simp_all

lemma media_stage_subtitle_calls:
  assumes "ext_generateVoiceover e (join '' '' (map seg_text script)) (vs_voice (st_settings st))
             = Inr (audio, reported)"
  shows "subtitle_calls (snd (media_stage e st script selected)) =
           [(join '' '' (map seg_text script), duration_or reported (vs_duration (st_settings st)))]"
  using assms
  by (simp add: media_stage_def Let_def split: sum.splits prod.splits)

text \<open>
  Claim C7. When the script stage has produced a script and the clip lookup returns
  an empty list, the run ends with the error "No videos found for the given prompt"
  shown, no run in progress, no video, the step indicator at the lookup step, and the
  lookup as its last call: no clip selection, narration synthesis, caption alignment
  or composition call is made.
\<close>

theorem handleGenerate_no_videos:
  assumes "script_stage e (st_settings st) = (Inr script, ev1)"
    and "ext_searchVideos e (dedupe [] (concat (map seg_keywords script)))
           (vs_duration (st_settings st)) = Inr []"
  shows "st_error (fst (handleGenerate e st)) = ''No videos found for the given prompt''
       \<and> \<not> st_isGenerating (fst (handleGenerate e st))
       \<and> st_videoUrl (fst (handleGenerate e st)) = []
       \<and> st_currentStep (fst (handleGenerate e st)) = 2
       \<and> snd (handleGenerate e st) =
           ev1 @ [Call_searchVideos (dedupe [] (concat (map seg_keywords script)))
                    (vs_duration (st_settings st))]
       \<and> (\<forall>x \<in> set (snd (handleGenerate e st)). \<not> is_downstream_call x)"
proof -
  from assms have state: "fst (handleGenerate e st) =
      catch_finally
         (st\<lparr>st_isGenerating := True, st_progress := ''Starting video generation...'',
             st_currentStep := 0, st_error := [], st_videoUrl := [],
             st_currentStep := 1, st_progress := ''Generating AI script...'',
             st_currentStep := 2, st_progress := ''Searching for relevant videos...''\<rparr>)
         (Error ''No videos found for the given prompt'')"
    by (simp add: handleGenerate_def Let_def)
  from assms have calls: "snd (handleGenerate e st) =
       ev1 @ [Call_searchVideos (dedupe [] (concat (map seg_keywords script)))
                (vs_duration (st_settings st))]"
    by (simp add: handleGenerate_def Let_def)
  from script_stage_events [OF assms(1)] have "\<forall>x \<in> set ev1. \<not> is_downstream_call x" .
  with calls have "\<forall>x \<in> set (snd (handleGenerate e st)). \<not> is_downstream_call x"
    by simp
  with calls show ?thesis
    by (simp add: state catch_finally_def)
qed

theorem handleGenerate_no_videos_witness:
  "script_stage (sample_env [] (Some 12)) (st_settings (sample_state ''cats'' False)) =
     (Inr [\<lparr>seg_text = ''Hi.'', seg_duration = 30, seg_keywords = [''cats'']\<rparr>],
      [Call_generateScript ''cats'' 30])
   \<and> ext_searchVideos (sample_env [] (Some 12))
        (dedupe [] (concat (map seg_keywords
           [\<lparr>seg_text = ''Hi.'', seg_duration = 30, seg_keywords = [''cats'']\<rparr>])))
        (vs_duration (st_settings (sample_state ''cats'' False))) = Inr []
   \<and> st_error (fst (handleGenerate (sample_env [] (Some 12)) (sample_state ''cats'' False))) =
        ''No videos found for the given prompt''
   \<and> snd (handleGenerate (sample_env [] (Some 12)) (sample_state ''cats'' False)) =
        [Call_generateScript ''cats'' 30, Call_searchVideos [''cats''] 30]"
proof -
  let ?e = "sample_env [] (Some 12)"
  let ?st = "sample_state ''cats'' False"
  let ?script = "[\<lparr>seg_text = ''Hi.'', seg_duration = 30, seg_keywords = [''cats'']\<rparr>]"
  have h1: "script_stage ?e (st_settings ?st) = (Inr ?script, [Call_generateScript ''cats'' 30])"
    by (simp add: script_stage_def sample_env_def sample_state_def)
  have h2: "ext_searchVideos ?e (dedupe [] (concat (map seg_keywords ?script)))
        (vs_duration (st_settings ?st)) = Inr []"
    by (simp add: sample_env_def)
  have k: "dedupe [] (concat (map seg_keywords ?script)) = [''cats'']" by simp
  have d: "vs_duration (st_settings ?st) = 30" by (simp add: sample_state_def)
  note t = handleGenerate_no_videos [OF h1 h2]
  from t have 1: "st_error (fst (handleGenerate ?e ?st)) = ''No videos found for the given prompt''"
    by (rule conjunct1)
  from t have "snd (handleGenerate ?e ?st) =
           [Call_generateScript ''cats'' 30]
             @ [Call_searchVideos (dedupe [] (concat (map seg_keywords ?script)))
                    (vs_duration (st_settings ?st))]"
    by blast
  then have 2: "snd (handleGenerate ?e ?st) =
        [Call_generateScript ''cats'' 30, Call_searchVideos [''cats''] 30]"
    by (simp only: k d append.simps)
  from h1 h2 1 2 show ?thesis by (intro conjI)
qed

text \<open>
  Claim C8, amended. In every run in which the script stage, the clip lookup (with at
  least one clip), the clip selection and the narration synthesis succeed, caption
  alignment is called exactly once, with the full script text and with the duration
  the synthesizer reported when that duration is present and not 0; when the
  synthesizer reports 0 or no duration, alignment gets the requested duration of the
  settings instead.
\<close>

theorem handleGenerate_subtitle_duration:
  assumes "script_stage e (st_settings st) = (Inr script, ev1)"
    and "ext_searchVideos e (dedupe [] (concat (map seg_keywords script)))
           (vs_duration (st_settings st)) = Inr clips"
    and "clips \<noteq> []"
    and "ext_selectClipsForDuration e clips (vs_duration (st_settings st)) = Inr selected"
    and "ext_generateVoiceover e (join '' '' (map seg_text script)) (vs_voice (st_settings st))
           = Inr (audio, reported)"
  shows "subtitle_calls (snd (handleGenerate e st)) =
           [(join '' '' (map seg_text script),
             (if reported = None \<or> reported = Some 0 then vs_duration (st_settings st)
              else the reported))]"
proof -
  let ?st2 = "st\<lparr>st_isGenerating := True, st_progress := ''Starting video generation...'',
             st_currentStep := 0, st_error := [], st_videoUrl := [],
             st_currentStep := 1, st_progress := ''Generating AI script...'',
             st_currentStep := 2, st_progress := ''Searching for relevant videos...''\<rparr>"
  from assms(1-4) have calls: "snd (handleGenerate e st) =
      ev1 @ [Call_searchVideos (dedupe [] (concat (map seg_keywords script)))
                (vs_duration (st_settings st)),
             Call_selectClipsForDuration clips (vs_duration (st_settings st))]
          @ snd (media_stage e ?st2 script selected)"
    by (simp add: handleGenerate_def Let_def split: prod.splits)
  have settings: "st_settings ?st2 = st_settings st" by simp
  from assms(5) have "subtitle_calls (snd (media_stage e ?st2 script selected)) =
       [(join '' '' (map seg_text script), duration_or reported (vs_duration (st_settings st)))]"
    using media_stage_subtitle_calls [of e script ?st2 audio reported selected]
    by (simp only: settings)
  moreover have "duration_or reported (vs_duration (st_settings st)) =
      (if reported = None \<or> reported = Some 0 then vs_duration (st_settings st)
       else the reported)"
    by (auto simp: duration_or_def split: option.splits)
  ultimately show ?thesis
    using script_stage_subtitle_calls [OF assms(1)]
    by (simp add: calls subtitle_calls_append)
qed


theorem handleGenerate_subtitle_duration_witness:
  "script_stage (sample_env [\<lparr>clip_url = ''u'', clip_duration = 40, clip_startTime = None\<rparr>] (Some 12))
       (st_settings (sample_state ''cats'' False)) =
     (Inr [\<lparr>seg_text = ''Hi.'', seg_duration = 30, seg_keywords = [''cats'']\<rparr>],
      [Call_generateScript ''cats'' 30])
   \<and> [\<lparr>clip_url = ''u'', clip_duration = 40, clip_startTime = None\<rparr>] \<noteq> []
   \<and> ext_generateVoiceover
        (sample_env [\<lparr>clip_url = ''u'', clip_duration = 40, clip_startTime = None\<rparr>] (Some 12))
        ''Hi.'' ''Alice'' = Inr ([], Some 12)
   \<and> subtitle_calls (snd (handleGenerate
        (sample_env [\<lparr>clip_url = ''u'', clip_duration = 40, clip_startTime = None\<rparr>] (Some 12))
        (sample_state ''cats'' False))) = [(''Hi.'', 12)]"
proof -
  let ?clips = "[\<lparr>clip_url = ''u'', clip_duration = 40, clip_startTime = None\<rparr>]"
  let ?e = "sample_env ?clips (Some 12)"
  let ?st = "sample_state ''cats'' False"
  let ?script = "[\<lparr>seg_text = ''Hi.'', seg_duration = 30, seg_keywords = [''cats'']\<rparr>]"
  have h1: "script_stage ?e (st_settings ?st) = (Inr ?script, [Call_generateScript ''cats'' 30])"
    by (simp add: script_stage_def sample_env_def sample_state_def)
  have h2: "ext_searchVideos ?e (dedupe [] (concat (map seg_keywords ?script)))
        (vs_duration (st_settings ?st)) = Inr ?clips"
    by (simp add: sample_env_def)
  have h3: "?clips \<noteq> []" by simp
  have h4: "ext_selectClipsForDuration ?e ?clips (vs_duration (st_settings ?st)) = Inr ?clips"
    by (simp add: sample_env_def)
  have h5: "ext_generateVoiceover ?e (join '' '' (map seg_text ?script)) (vs_voice (st_settings ?st))
           = Inr ([], Some 12)"
    by (simp add: sample_env_def)
  have v: "ext_generateVoiceover ?e ''Hi.'' ''Alice'' = Inr ([], Some 12)"
    by (simp add: sample_env_def)
  have "subtitle_calls (snd (handleGenerate ?e ?st)) =
           [(join '' '' (map seg_text ?script),
             (if Some (12::rat) = None \<or> Some (12::rat) = Some 0 then vs_duration (st_settings ?st)
              else the (Some 12)))]"
    by (rule handleGenerate_subtitle_duration [OF h1 h2 h3 h4 h5])
  then have c: "subtitle_calls (snd (handleGenerate ?e ?st)) = [(''Hi.'', 12)]"
    by simp
  from h1 h3 v c show ?thesis by (intro conjI)
qed

text \<open>
  Claim C8, as stated, fails when the synthesizer succeeds and reports a duration of
  0: caption alignment is then called with the requested 30 seconds.
\<close>

theorem subtitle_duration_counterexample:
  "ext_generateVoiceover
        (sample_env [\<lparr>clip_url = ''u'', clip_duration = 40, clip_startTime = None\<rparr>] (Some 0))
        ''Hi.'' ''Alice'' = Inr ([], Some 0)
   \<and> subtitle_calls (snd (handleGenerate
        (sample_env [\<lparr>clip_url = ''u'', clip_duration = 40, clip_startTime = None\<rparr>] (Some 0))
        (sample_state ''cats'' False))) = [(''Hi.'', 30)]"
  by (simp add: handleGenerate_def media_stage_def script_stage_def sample_env_def
        sample_state_def duration_or_def Let_def)

lemma handleGenerate_calls_nonempty: "snd (handleGenerate e st) \<noteq> []"
proof -
  obtain r ev1 where s: "script_stage e (st_settings st) = (r, ev1)"
    by (cases "script_stage e (st_settings st)")
  with script_stage_nonempty [of e "st_settings st"] have "ev1 \<noteq> []" by simp
  with s show ?thesis
    by (simp add: handleGenerate_def Let_def split: sum.splits prod.splits)
qed

text \<open>
  Claim C9. The generate button is disabled exactly when the prompt is the empty
  string or a run is in progress; in every such state a click changes nothing and
  calls nothing; and a click starts a run (makes a pipeline call) exactly when the
  prompt is non-empty and no run is in progress.
\<close>

theorem generate_button_guard:
  "(generate_disabled st \<longleftrightarrow> vs_prompt (st_settings st) = [] \<or> st_isGenerating st)
   \<and> (vs_prompt (st_settings st) = [] \<or> st_isGenerating st \<longrightarrow> click_generate e st = (st, []))
   \<and> (snd (click_generate e st) \<noteq> [] \<longleftrightarrow>
        vs_prompt (st_settings st) \<noteq> [] \<and> \<not> st_isGenerating st)"
  using handleGenerate_calls_nonempty [of e st]
  by (auto simp: generate_disabled_def click_generate_def)

theorem generate_button_guard_witness:
  "vs_prompt (st_settings (sample_state [] False)) = []
   \<and> click_generate (sample_env [] None) (sample_state [] False) = (sample_state [] False, [])
   \<and> st_isGenerating (sample_state ''cats'' True)
   \<and> click_generate (sample_env [] None) (sample_state ''cats'' True) =
        (sample_state ''cats'' True, [])
   \<and> vs_prompt (st_settings (sample_state ''cats'' False)) \<noteq> []
   \<and> \<not> st_isGenerating (sample_state ''cats'' False)
   \<and> snd (click_generate (sample_env [] None) (sample_state ''cats'' False)) \<noteq> []"
proof -
  have p: "vs_prompt (st_settings (sample_state [] False)) = []"
    by (simp add: sample_state_def)
  have g: "st_isGenerating (sample_state ''cats'' True)"
    by (simp add: sample_state_def)
  have q: "vs_prompt (st_settings (sample_state ''cats'' False)) \<noteq> []"
    and n: "\<not> st_isGenerating (sample_state ''cats'' False)"
    by (simp_all add: sample_state_def)
  from p generate_button_guard [of "sample_state [] False" "sample_env [] None"]
  have 1: "click_generate (sample_env [] None) (sample_state [] False) = (sample_state [] False, [])"
    by blast
  from g generate_button_guard [of "sample_state ''cats'' True" "sample_env [] None"]
  have 2: "click_generate (sample_env [] None) (sample_state ''cats'' True) =
        (sample_state ''cats'' True, [])"
    by blast
  from q n generate_button_guard [of "sample_state ''cats'' False" "sample_env [] None"]
  have 3: "snd (click_generate (sample_env [] None) (sample_state ''cats'' False)) \<noteq> []"
    by blast
  from p 1 g 2 q n 3 show ?thesis by (intro conjI)
qed

end
